theory Spec2Isabelle
  imports Complex_Main
begin

section \<open>Values and strings\<close>

text \<open>
  Style values, text content and options are JavaScript values. The embedding keeps the
  values that the normalizers and the comparator handle: \<open>undefined\<close>, \<open>null\<close>,
  numbers and strings. A number is a real or \<open>NaN\<close> (the result of a failed
  \<open>parseInt\<close>/\<open>parseFloat\<close>); rounding of IEEE doubles and the infinities are not
  modelled. A string is a list of characters; case mapping and white space are the ASCII
  ones.
\<close>

datatype jsval = Undefined | Null | NaN | Num real | Str string

text \<open>\<open>a === b\<close>: \<open>NaN\<close> is not equal to itself.\<close>

definition strictEq :: "jsval \<Rightarrow> jsval \<Rightarrow> bool" where
  "strictEq a b = (a = b \<and> a \<noteq> NaN)"

definition isDigit :: "char \<Rightarrow> bool" where
  "isDigit c = (let n = (of_char c :: nat) in 48 \<le> n \<and> n \<le> 57)"

definition isUpper :: "char \<Rightarrow> bool" where
  "isUpper c = (let n = (of_char c :: nat) in 65 \<le> n \<and> n \<le> 90)"

definition isLower :: "char \<Rightarrow> bool" where
  "isLower c = (let n = (of_char c :: nat) in 97 \<le> n \<and> n \<le> 122)"

definition isHexDigit :: "char \<Rightarrow> bool" where
  "isHexDigit c = (let n = (of_char c :: nat) in
     (48 \<le> n \<and> n \<le> 57) \<or> (97 \<le> n \<and> n \<le> 102) \<or> (65 \<le> n \<and> n \<le> 70))"

definition isWhiteSpace :: "char \<Rightarrow> bool" where
  "isWhiteSpace c = (let n = (of_char c :: nat) in (9 \<le> n \<and> n \<le> 13) \<or> n = 32)"

definition upperChars :: string where
  "upperChars = ''ABCDEFGHIJKLMNOPQRSTUVWXYZ''"

definition lowerChars :: string where
  "lowerChars = ''abcdefghijklmnopqrstuvwxyz''"

definition toLowerChar :: "char \<Rightarrow> char" where
  "toLowerChar c = (case map_of (zip upperChars lowerChars) c of Some l \<Rightarrow> l | None \<Rightarrow> c)"

definition toUpperChar :: "char \<Rightarrow> char" where
  "toUpperChar c = (case map_of (zip lowerChars upperChars) c of Some u \<Rightarrow> u | None \<Rightarrow> c)"

definition toLowerCase :: "string \<Rightarrow> string" where
  "toLowerCase s = map toLowerChar s"

definition trim :: "string \<Rightarrow> string" where
  "trim s = rev (dropWhile isWhiteSpace (rev (dropWhile isWhiteSpace s)))"

definition startsWith :: "string \<Rightarrow> string \<Rightarrow> bool" where
  "startsWith s p = (take (length p) s = p)"

definition digitVal :: "char \<Rightarrow> nat" where
  "digitVal c = (of_char c :: nat) - 48"

definition hexVal :: "char \<Rightarrow> nat" where
  "hexVal c = (let n = (of_char c :: nat) in
     if n \<le> 57 then n - 48 else if 97 \<le> n then n - 87 else n - 55)"

definition digitsToNat :: "string \<Rightarrow> nat" where
  "digitsToNat ds = foldl (\<lambda>acc c. 10 * acc + digitVal c) 0 ds"

text \<open>
  \<open>parseInt(s, 10)\<close>: leading white space is skipped, one sign is accepted, the longest
  run of decimal digits is read; no digit gives \<open>NaN\<close> (here \<open>None\<close>).
\<close>

definition parseInt10 :: "string \<Rightarrow> int option" where
  "parseInt10 s =
     (let s1 = dropWhile isWhiteSpace s;
          neg = (s1 \<noteq> [] \<and> hd s1 = CHR ''-'');
          s2 = (if s1 \<noteq> [] \<and> (hd s1 = CHR ''-'' \<or> hd s1 = CHR ''+'') then tl s1 else s1);
          ds = takeWhile isDigit s2
      in if ds = [] then None
         else Some (if neg then - int (digitsToNat ds) else int (digitsToNat ds)))"

section \<open>Colour primitives (utils/color.ts)\<close>

text \<open>
  \<open>hexToRgb\<close> matches \<open>/^#?([a-f\d]{2})([a-f\d]{2})([a-f\d]{2})$/i\<close>: an optional
  \<open>#\<close> and exactly six hexadecimal digits.
\<close>

definition hexToRgb :: "string \<Rightarrow> (nat \<times> nat \<times> nat) option" where
  "hexToRgb hex =
     (let s = (if hex \<noteq> [] \<and> hd hex = CHR ''#'' then tl hex else hex)
      in if length s = 6 \<and> list_all isHexDigit s
         then Some (16 * hexVal (s ! 0) + hexVal (s ! 1),
                    16 * hexVal (s ! 2) + hexVal (s ! 3),
                    16 * hexVal (s ! 4) + hexVal (s ! 5))
         else None)"

text \<open>
  \<open>Math.sqrt\<close> is the real square root. It has no code equation: a run of the
  model that does not need the numeric value of a root still evaluates.
\<close>

definition Math_sqrt :: "real \<Rightarrow> real" where
  "Math_sqrt x = sqrt x"

declare Math_sqrt_def [code del]

definition rgbDistance :: "nat \<times> nat \<times> nat \<Rightarrow> nat \<times> nat \<times> nat \<Rightarrow> real" where
  "rgbDistance a b =
     (case a of (r1, g1, b1) \<Rightarrow> case b of (r2, g2, b2) \<Rightarrow>
        Math_sqrt (real_of_int ((int r1 - int r2)\<^sup>2 + (int g1 - int g2)\<^sup>2 + (int b1 - int b2)\<^sup>2)))"

definition colorDistance :: "string \<Rightarrow> string \<Rightarrow> real" where
  "colorDistance color1 color2 =
     (case (hexToRgb color1, hexToRgb color2) of
        (Some rgb1, Some rgb2) \<Rightarrow> rgbDistance rgb1 rgb2
      | _ \<Rightarrow> if color1 = color2 then 0 else 255 * Math_sqrt 3)"

definition colorsEqual :: "string \<Rightarrow> string \<Rightarrow> real \<Rightarrow> bool" where
  "colorsEqual color1 color2 tolerance =
     (if color1 = color2 then True
      else if tolerance > 0 then colorDistance color1 color2 \<le> tolerance
      else False)"

section \<open>Scalar comparison (utils/format.ts)\<close>

text \<open>
  The \<open>fontWeight\<close> branch of \<open>valuesEqual\<close> turns each side into a number:
  \<open>'normal'\<close> is 400, another string goes through \<open>parseInt(_, 10)\<close>, a number is
  kept. \<open>None\<close> stands for \<open>NaN\<close>.
\<close>

fun fontWeightNum :: "jsval \<Rightarrow> real option" where
  "fontWeightNum (Str s) =
     (if s = ''normal'' then Some 400 else map_option real_of_int (parseInt10 s))"
| "fontWeightNum (Num r) = Some r"
| "fontWeightNum _ = None"

fun isNullish :: "jsval \<Rightarrow> bool" where
  "isNullish Undefined = True"
| "isNullish Null = True"
| "isNullish _ = False"

definition valuesEqual :: "jsval \<Rightarrow> jsval \<Rightarrow> real \<Rightarrow> string option \<Rightarrow> bool" where
  "valuesEqual val1 val2 tolerance property =
     (if isNullish val1 then isNullish val2
      else if isNullish val2 then False
      else if strictEq val1 val2 then True
      else if property = Some ''fontWeight''
              \<and> fontWeightNum val1 \<noteq> None \<and> fontWeightNum val2 \<noteq> None
           then fontWeightNum val1 = fontWeightNum val2
      else (case (val1, val2) of
              (Num a, Num b) \<Rightarrow> \<bar>a - b\<bar> \<le> tolerance
            | (Str a, Str b) \<Rightarrow> toLowerCase a = toLowerCase b
            | _ \<Rightarrow> False))"

section \<open>Objects, elements and results (types.ts)\<close>

text \<open>
  A plain object used as a dictionary (\<open>Record<string, V>\<close>) is an association list
  in insertion order with distinct keys. \<open>Object.keys\<close> lists the keys that are array
  indices first, in ascending numeric order, then the other keys in insertion order.
  Names inherited from \<open>Object.prototype\<close> (\<open>constructor\<close>, \<open>toString\<close>, ...) are
  not modelled as keys.
\<close>

type_synonym 'v jsobject = "(string \<times> 'v) list"

definition objSet :: "string \<Rightarrow> 'v \<Rightarrow> 'v jsobject \<Rightarrow> 'v jsobject" where
  "objSet k v ob =
     (if k \<in> fst ` set ob then map (\<lambda>kv. if fst kv = k then (k, v) else kv) ob
      else ob @ [(k, v)])"

definition isArrayIndex :: "string \<Rightarrow> bool" where
  "isArrayIndex k =
     (k \<noteq> [] \<and> list_all isDigit k \<and> (k = ''0'' \<or> hd k \<noteq> CHR ''0'')
      \<and> digitsToNat k < 2 ^ 32 - 1)"

definition objectKeys :: "'v jsobject \<Rightarrow> string list" where
  "objectKeys ob =
     (let ks = map fst ob
      in sort_key digitsToNat (filter isArrayIndex ks) @ filter (\<lambda>k. \<not> isArrayIndex k) ks)"

text \<open>\<open>new Set([...])\<close>: the first occurrence of each member, in order.\<close>

definition newSet :: "'a list \<Rightarrow> 'a list" where
  "newSet xs = foldl (\<lambda>acc x. if x \<in> set acc then acc else acc @ [x]) [] xs"

datatype elementType = TText | TContainer | TButton | TImage | TIcon | TInput

type_synonym styleProperties = "jsval jsobject"

text \<open>
  \<open>StandardElement\<close>. Of the metadata only \<open>isIndependentComponent\<close> is kept
  (\<open>None\<close> when the metadata does not set it); \<open>layout\<close> is read by no function
  modelled here and is left out.
\<close>

datatype standardElement = StandardElement
  (el_id: string)
  (el_type: elementType)
  (el_path: string)
  (el_content: "string option")
  (el_styles: styleProperties)
  (el_children: "standardElement list option")
  (el_isIndependentComponent: "bool option")

datatype severityMode = Strict | Normal | Lenient

record comparisonOptions =
  tolerance :: "real option"
  colorTolerance :: "real option"
  ignoreProperties :: "string list option"
  severity :: "severityMode option"

datatype severityLevel = SevError | SevWarning | SevInfo

datatype diffType = Missing | Extra | Mismatch

record elementMatch =
  m_path :: string
  m_pencil :: standardElement
  m_code :: standardElement
  m_confidence :: real
  m_propertiesMatch :: "bool jsobject"
  m_matchMethod :: "string option"

text \<open>The \<open>reason\<close> and \<open>suggestion\<close> texts of an \<open>ElementDiff\<close> are left out.\<close>

record elementDiff =
  d_path :: string
  d_element :: standardElement
  d_type :: diffType
  d_severity :: severityLevel

record styleDiff =
  sd_path :: string
  sd_property :: string
  sd_pencilValue :: jsval
  sd_codeValue :: jsval
  sd_diff :: "real option"
  sd_severity :: severityLevel

datatype overallStatus = Pass | Warning | Fail

record comparisonSummary =
  totalElements :: nat
  matchedElements :: nat
  missingElements :: nat
  extraElements :: nat
  styleDiffCount :: nat
  matchRate :: real
  status :: overallStatus

record comparisonResult =
  matches :: "elementMatch list"
  missingInCode :: "elementDiff list"
  extraInCode :: "elementDiff list"
  styleDiffs :: "styleDiff list"
  summary :: comparisonSummary

text \<open>\<open>obj[prop]\<close> on a style object, and \<open>el.content\<close>, as values.\<close>

definition getProp :: "styleProperties \<Rightarrow> string \<Rightarrow> jsval" where
  "getProp styles prop = (case map_of styles prop of None \<Rightarrow> Undefined | Some v \<Rightarrow> v)"

definition contentValue :: "standardElement \<Rightarrow> jsval" where
  "contentValue el = (case el_content el of None \<Rightarrow> Undefined | Some s \<Rightarrow> Str s)"

text \<open>\<open>options.tolerance || 0\<close>, \<open>options.ignoreProperties || []\<close>.\<close>

definition orZero :: "real option \<Rightarrow> real" where
  "orZero t = (case t of None \<Rightarrow> 0 | Some r \<Rightarrow> r)"

definition ignoreProps :: "comparisonOptions \<Rightarrow> string set" where
  "ignoreProps options = (case ignoreProperties options of None \<Rightarrow> {} | Some ps \<Rightarrow> set ps)"

section \<open>Element comparison (core/element.ts)\<close>

definition propertiesToCompare :: "string list" where
  "propertiesToCompare =
     [''content'', ''fontSize'', ''fontWeight'', ''color'', ''backgroundColor'',
      ''padding'', ''gap'', ''borderRadius'']"

definition compareProperty ::
  "string \<Rightarrow> jsval \<Rightarrow> jsval \<Rightarrow> comparisonOptions \<Rightarrow> bool" where
  "compareProperty property pencilValue codeValue options =
     (if pencilValue = Undefined \<and> codeValue = Undefined then True
      else if pencilValue = Undefined \<or> codeValue = Undefined then False
      else if strictEq pencilValue codeValue then True
      else (case (pencilValue, codeValue) of
              (Num a, Num b) \<Rightarrow> \<bar>a - b\<bar> \<le> orZero (tolerance options)
            | (Str a, Str b) \<Rightarrow>
                if (property = ''color'' \<or> property = ''backgroundColor'')
                   \<and> startsWith a ''#'' \<and> startsWith b ''#''
                then (case (hexToRgb a, hexToRgb b) of
                        (Some rgb1, Some rgb2) \<Rightarrow>
                          rgbDistance rgb1 rgb2 \<le> orZero (colorTolerance options)
                      | _ \<Rightarrow> False)
                else False
            | _ \<Rightarrow> False))"

definition elementValue :: "standardElement \<Rightarrow> string \<Rightarrow> jsval" where
  "elementValue el prop =
     (if prop = ''content'' then contentValue el else getProp (el_styles el) prop)"

record compareAcc =
  propertiesMatch :: "bool jsobject"
  matchCount :: nat
  totalCount :: nat

definition compareStep ::
  "standardElement \<Rightarrow> standardElement \<Rightarrow> comparisonOptions \<Rightarrow> compareAcc \<Rightarrow> string
     \<Rightarrow> compareAcc" where
  "compareStep pencil code options acc prop =
     (if prop \<in> ignoreProps options then acc
      else let pencilValue = elementValue pencil prop;
               codeValue = elementValue code prop
           in if pencilValue = Undefined \<and> codeValue = Undefined then acc
              else let isMatch = compareProperty prop pencilValue codeValue options
                   in \<lparr> propertiesMatch = objSet prop isMatch (propertiesMatch acc),
                        matchCount = (if isMatch then matchCount acc + 1 else matchCount acc),
                        totalCount = totalCount acc + 1 \<rparr>)"

definition compareElements ::
  "standardElement \<Rightarrow> standardElement \<Rightarrow> comparisonOptions \<Rightarrow> elementMatch" where
  "compareElements pencil code options =
     (let acc = foldl (compareStep pencil code options)
                  \<lparr> propertiesMatch = [], matchCount = 0, totalCount = 0 \<rparr>
                  propertiesToCompare;
          confidence = (if totalCount acc > 0
                        then real (matchCount acc) / real (totalCount acc) else 1)
      in \<lparr> m_path = el_path pencil, m_pencil = pencil, m_code = code,
           m_confidence = confidence, m_propertiesMatch = propertiesMatch acc,
           m_matchMethod = None \<rparr>)"

section \<open>Style comparison (core/style.ts)\<close>

definition CRITICAL_PROPERTIES :: "string list" where
  "CRITICAL_PROPERTIES =
     [''content'', ''fontSize'', ''fontWeight'', ''color'', ''backgroundColor'',
      ''padding'', ''gap'']"

definition styleCompareProperty ::
  "string \<Rightarrow> jsval \<Rightarrow> jsval \<Rightarrow> real \<Rightarrow> real \<Rightarrow> bool" where
  "styleCompareProperty property pencilValue codeValue tol colorTol =
     (case (property = ''color'' \<or> property = ''backgroundColor'', pencilValue, codeValue) of
        (True, Str a, Str b) \<Rightarrow> colorsEqual a b colorTol
      | _ \<Rightarrow> valuesEqual pencilValue codeValue tol (Some property))"

definition getSeverity :: "string \<Rightarrow> comparisonOptions \<Rightarrow> severityLevel" where
  "getSeverity property options =
     (if severity options = Some Strict then SevError
      else if severity options = Some Lenient then SevInfo
      else if property \<in> set CRITICAL_PROPERTIES then SevError
      else SevWarning)"

definition calculateDiff :: "jsval \<Rightarrow> jsval \<Rightarrow> real option" where
  "calculateDiff pencilValue codeValue =
     (case (pencilValue, codeValue) of
        (Num a, Num b) \<Rightarrow> Some \<bar>a - b\<bar>
      | (Str a, Str b) \<Rightarrow>
          if startsWith a ''#'' \<and> startsWith b ''#''
          then (case (hexToRgb a, hexToRgb b) of
                  (Some rgb1, Some rgb2) \<Rightarrow> Some (rgbDistance rgb1 rgb2)
                | _ \<Rightarrow> None)
          else None
      | _ \<Rightarrow> None)"

definition styleStep ::
  "standardElement \<Rightarrow> standardElement \<Rightarrow> comparisonOptions \<Rightarrow> string \<Rightarrow> styleDiff list
     \<Rightarrow> string \<Rightarrow> styleDiff list" where
  "styleStep pencil code options elementPath acc prop =
     (if prop \<in> ignoreProps options then acc
      else let pencilValue = getProp (el_styles pencil) prop;
               codeValue = getProp (el_styles code) prop
           in if styleCompareProperty prop pencilValue codeValue
                   (orZero (tolerance options)) (orZero (colorTolerance options))
              then acc
              else acc @ [\<lparr> sd_path = elementPath, sd_property = prop,
                               sd_pencilValue = pencilValue, sd_codeValue = codeValue,
                               sd_diff = calculateDiff pencilValue codeValue,
                               sd_severity = getSeverity prop options \<rparr>])"

definition compareStyles ::
  "standardElement \<Rightarrow> standardElement \<Rightarrow> comparisonOptions \<Rightarrow> string \<Rightarrow> styleDiff list" where
  "compareStyles pencil code options elementPath =
     (let diffs0 =
            (if ''content'' \<notin> ignoreProps options \<and> el_content pencil \<noteq> el_content code
             then [\<lparr> sd_path = elementPath, sd_property = ''content'',
                      sd_pencilValue = contentValue pencil, sd_codeValue = contentValue code,
                      sd_diff = None, sd_severity = SevError \<rparr>]
             else []);
          allProps = newSet (objectKeys (el_styles pencil) @ objectKeys (el_styles code))
      in foldl (styleStep pencil code options elementPath) diffs0 allProps)"

section \<open>Paths (utils/path.ts)\<close>

function natToString :: "nat \<Rightarrow> string" where
  "natToString n =
     (if n < 10 then [char_of (48 + n)]
      else natToString (n div 10) @ [char_of (48 + n mod 10)])"
  by pat_completeness auto
termination
  by (relation "measure id") auto

definition PATH_SEPARATOR :: string where
  "PATH_SEPARATOR = '' > ''"

definition buildPath :: "string \<Rightarrow> string \<Rightarrow> nat \<Rightarrow> string" where
  "buildPath parentPath name index =
     (if parentPath = [] then name
      else parentPath @ PATH_SEPARATOR @ name @ ''['' @ natToString index @ '']'')"

text \<open>\<open>s.split(sep)\<close> for a non-empty separator; \<open>cur\<close> is the piece being read, reversed.\<close>

function splitOn :: "string \<Rightarrow> string \<Rightarrow> string \<Rightarrow> string list" where
  "splitOn sep cur [] = [rev cur]"
| "splitOn sep cur (c # cs) =
     (if sep \<noteq> [] \<and> take (length sep) (c # cs) = sep
      then rev cur # splitOn sep [] (drop (length sep) (c # cs))
      else splitOn sep (c # cur) cs)"
  by pat_completeness auto
termination
  by (relation "measure (\<lambda>(sep, cur, rest). length rest)") auto

definition split :: "string \<Rightarrow> string \<Rightarrow> string list" where
  "split s sep = splitOn sep [] s"

text \<open>\<open>extractName\<close>: the part before the first \<open>[\<close>, the whole part when there is none.\<close>

definition extractName :: "string \<Rightarrow> string" where
  "extractName pathPart = takeWhile (\<lambda>c. c \<noteq> CHR ''['') pathPart"

definition arePathsEquivalentByName ::
  "string \<Rightarrow> string \<Rightarrow> (string \<Rightarrow> string) option \<Rightarrow> bool" where
  "arePathsEquivalentByName pencilPath codePath nameMapping =
     (if pencilPath = codePath then True
      else let pencilParts = split pencilPath '' > '';
               codeParts = split codePath '' > '';
               pencilRootName = extractName (hd pencilParts);
               codeRootName = extractName (hd codeParts)
           in if pencilRootName \<noteq> codeRootName then False
              else let pencilLastName = extractName (last pencilParts);
                       codeLastName = extractName (last codeParts);
                       mappedPencilName =
                         (case nameMapping of Some f \<Rightarrow> f pencilLastName
                          | None \<Rightarrow> pencilLastName)
                   in mappedPencilName = codeLastName)"

fun addElement :: "standardElement jsobject \<Rightarrow> standardElement \<Rightarrow> standardElement jsobject"
  and addElements ::
    "standardElement jsobject \<Rightarrow> standardElement list \<Rightarrow> standardElement jsobject" where
  "addElement index (StandardElement i t p c s ch m) =
     (let index' = objSet p (StandardElement i t p c s ch m) index
      in case ch of None \<Rightarrow> index' | Some els \<Rightarrow> addElements index' els)"
| "addElements index [] = index"
| "addElements index (el # els) = addElements (addElement index el) els"

definition indexByPath :: "standardElement list \<Rightarrow> standardElement jsobject" where
  "indexByPath elements = addElements [] elements"

section \<open>Name mapping and independent components (config)\<close>

definition PENCIL_TO_CODE_NAME :: "string jsobject" where
  "PENCIL_TO_CODE_NAME =
     [(''settingsButton'', ''SettingsDropdown''),
      (''settingsIndicator'', ''SettingsDropdown''),
      (''settingsIndicatorContainer'', ''SettingsDropdown''),
      (''welcomeMsg'', ''welcomeMessage'')]"

definition CODE_CLASS_TO_PENCIL_NAME :: "string jsobject" where
  "CODE_CLASS_TO_PENCIL_NAME = [(''welcomeMessage'', ''welcomeMsg'')]"

text \<open>\<open>table[name] || name\<close>: an absent or empty entry gives the name itself.\<close>

definition lookupOr :: "string jsobject \<Rightarrow> string \<Rightarrow> string" where
  "lookupOr table name =
     (case map_of table name of None \<Rightarrow> name | Some v \<Rightarrow> if v = [] then name else v)"

definition mapPencilNameToCode :: "string \<Rightarrow> string" where
  "mapPencilNameToCode pencilName = lookupOr PENCIL_TO_CODE_NAME pencilName"

definition stripNumericSuffix :: "string \<Rightarrow> string" where
  "stripNumericSuffix name = rev (dropWhile isDigit (rev name))"

definition INDEPENDENT_COMPONENT_MAPPING :: "string jsobject" where
  "INDEPENDENT_COMPONENT_MAPPING =
     [(''settingsButton'', ''SettingsDropdown''),
      (''settingsIndicator'', ''SettingsDropdown''),
      (''settingsIndicatorContainer'', ''SettingsDropdown''),
      (''headerActions'', ''SettingsDropdown'')]"

definition isIndependentComponent :: "string \<Rightarrow> bool" where
  "isIndependentComponent pencilName = (map_of INDEPENDENT_COMPONENT_MAPPING pencilName \<noteq> None)"

section \<open>The comparison run (core/compare.ts)\<close>

text \<open>\<open>el.content && el.content.trim()\<close> as a condition.\<close>

definition hasContent :: "standardElement \<Rightarrow> bool" where
  "hasContent el = (case el_content el of None \<Rightarrow> False | Some c \<Rightarrow> c \<noteq> [] \<and> trim c \<noteq> [])"

definition contentKey :: "standardElement \<Rightarrow> string" where
  "contentKey el = (case el_content el of None \<Rightarrow> [] | Some c \<Rightarrow> toLowerCase (trim c))"

fun addContent ::
    "standardElement list jsobject \<Rightarrow> standardElement \<Rightarrow> standardElement list jsobject"
  and addContents ::
    "standardElement list jsobject \<Rightarrow> standardElement list \<Rightarrow> standardElement list jsobject"
  where
  "addContent index (StandardElement i t p c s ch m) =
     (let el = StandardElement i t p c s ch m;
          index' =
            (if hasContent el
             then objSet (contentKey el)
                    ((case map_of index (contentKey el) of None \<Rightarrow> [] | Some l \<Rightarrow> l) @ [el])
                    index
             else index)
      in case ch of None \<Rightarrow> index' | Some els \<Rightarrow> addContents index' els)"
| "addContents index [] = index"
| "addContents index (el # els) = addContents (addContent index el) els"

definition indexByContent :: "standardElement list \<Rightarrow> standardElement list jsobject" where
  "indexByContent elements = addContents [] elements"

definition findMatchByContent ::
  "standardElement \<Rightarrow> standardElement list jsobject \<Rightarrow> string list
     \<Rightarrow> standardElement option" where
  "findMatchByContent target contentIndex matchedIds =
     (if \<not> hasContent target then None
      else case map_of contentIndex (contentKey target) of
             None \<Rightarrow> None
           | Some candidates \<Rightarrow>
               (case find (\<lambda>candidate. el_id candidate \<notin> set matchedIds
                                        \<and> el_type candidate = el_type target) candidates of
                  Some candidate \<Rightarrow> Some candidate
                | None \<Rightarrow> find (\<lambda>candidate. el_id candidate \<notin> set matchedIds) candidates))"

definition calculateSummary :: "comparisonResult \<Rightarrow> comparisonOptions \<Rightarrow> comparisonSummary" where
  "calculateSummary result options =
     (let total = length (matches result) + length (missingInCode result)
                  + length (extraInCode result);
          matched = length (filter (\<lambda>m. m_confidence m \<ge> 0.5) (matches result));
          missing = length (filter (\<lambda>d. d_severity d = SevError) (missingInCode result));
          extra = length (filter (\<lambda>d. d_severity d = SevError) (extraInCode result));
          diffCount = length (filter (\<lambda>d. sd_severity d = SevError) (styleDiffs result));
          rate = (if total > 0 then real matched / real total * 100 else 100);
          st = (if missing > 0 \<or> diffCount > 0 then Fail
                else if extra > 0 then Fail
                else if length (extraInCode result) > 0 then Warning
                else Pass)
      in \<lparr> totalElements = total, matchedElements = matched, missingElements = missing,
           extraElements = extra, styleDiffCount = diffCount, matchRate = rate,
           status = st \<rparr>)"

record runState =
  res :: comparisonResult
  matchedPencilIds :: "string list"
  matchedCodeIds :: "string list"

definition initialResult :: comparisonResult where
  "initialResult =
     \<lparr> matches = [], missingInCode = [], extraInCode = [], styleDiffs = [],
       summary = \<lparr> totalElements = 0, matchedElements = 0, missingElements = 0,
                   extraElements = 0, styleDiffCount = 0, matchRate = 0, status = Pass \<rparr> \<rparr>"

text \<open>The path alignment pass: one step for each design path, in key order.\<close>

definition alignStep ::
  "standardElement jsobject \<Rightarrow> string jsobject \<Rightarrow> string \<Rightarrow> string jsobject" where
  "alignStep codeByPath pathMatches pencilPath =
     (if map_of codeByPath pencilPath \<noteq> None then objSet pencilPath pencilPath pathMatches
      else case find (\<lambda>codePath.
                        arePathsEquivalentByName pencilPath codePath (Some mapPencilNameToCode))
                  (objectKeys codeByPath) of
             Some codePath \<Rightarrow> objSet pencilPath codePath pathMatches
           | None \<Rightarrow> pathMatches)"

definition contentMatch :: "standardElement \<Rightarrow> standardElement \<Rightarrow> string \<Rightarrow> elementMatch" where
  "contentMatch pencil code path =
     \<lparr> m_path = path, m_pencil = pencil, m_code = code, m_confidence = 0.7,
       m_propertiesMatch = [(''content'', True)], m_matchMethod = Some ''content'' \<rparr>"

definition pushMatch :: "elementMatch \<Rightarrow> runState \<Rightarrow> runState" where
  "pushMatch m st =
     st\<lparr> res := (res st)\<lparr> matches := matches (res st) @ [m] \<rparr>,
         matchedPencilIds := matchedPencilIds st @ [el_id (m_pencil m)],
         matchedCodeIds := matchedCodeIds st @ [el_id (m_code m)] \<rparr>"

text \<open>The body of the loop over all paths.\<close>

definition classifyStep ::
  "standardElement jsobject \<Rightarrow> standardElement jsobject
     \<Rightarrow> standardElement list jsobject \<Rightarrow> standardElement list jsobject
     \<Rightarrow> string jsobject \<Rightarrow> comparisonOptions \<Rightarrow> runState \<Rightarrow> string \<Rightarrow> runState" where
  "classifyStep pencilByPath codeByPath pencilByContent codeByContent pathMatches options st path =
     (let actualCodePath = lookupOr pathMatches path
      in case (map_of pencilByPath path, map_of codeByPath actualCodePath) of
           (Some pencilEl, None) \<Rightarrow>
             (case (if hasContent pencilEl
                    then findMatchByContent pencilEl codeByContent (matchedCodeIds st)
                    else None) of
                Some found \<Rightarrow> pushMatch (contentMatch pencilEl found (el_path pencilEl)) st
              | None \<Rightarrow>
                  st\<lparr> res := (res st)\<lparr> missingInCode := missingInCode (res st) @
                         [\<lparr> d_path = path, d_element = pencilEl, d_type = Missing,
                            d_severity = SevError \<rparr>] \<rparr> \<rparr>)
         | (None, Some codeEl) \<Rightarrow>
             (case (if hasContent codeEl
                    then findMatchByContent codeEl pencilByContent (matchedPencilIds st)
                    else None) of
                Some found \<Rightarrow> pushMatch (contentMatch found codeEl (el_path codeEl)) st
              | None \<Rightarrow>
                  st\<lparr> res := (res st)\<lparr> extraInCode := extraInCode (res st) @
                         [\<lparr> d_path = path, d_element = codeEl, d_type = Extra,
                            d_severity = (if severity options = Some Strict
                                          then SevError else SevWarning) \<rparr>] \<rparr> \<rparr>)
         | (Some pencilEl, Some codeEl) \<Rightarrow>
             (let st' = st\<lparr> res := (res st)\<lparr> matches := matches (res st) @
                                   [compareElements pencilEl codeEl options] \<rparr> \<rparr>;
                  st'' = st'\<lparr> res := (res st')\<lparr> styleDiffs := styleDiffs (res st') @
                                   compareStyles pencilEl codeEl options path \<rparr> \<rparr>
              in st''\<lparr> matchedPencilIds := matchedPencilIds st'' @ [el_id pencilEl],
                       matchedCodeIds := matchedCodeIds st'' @ [el_id codeEl] \<rparr>)
         | (None, None) \<Rightarrow> st)"

definition compareStructures ::
  "standardElement list \<Rightarrow> standardElement list \<Rightarrow> comparisonOptions \<Rightarrow> comparisonResult" where
  "compareStructures pencilElements codeElements options =
     (let pencilByPath = indexByPath pencilElements;
          codeByPath = indexByPath codeElements;
          allPaths = newSet (objectKeys pencilByPath @ objectKeys codeByPath);
          pencilByContent = indexByContent pencilElements;
          codeByContent = indexByContent codeElements;
          pathMatches = foldl (alignStep codeByPath) [] (objectKeys pencilByPath);
          st = foldl (classifyStep pencilByPath codeByPath pencilByContent codeByContent
                        pathMatches options)
                 \<lparr> res = initialResult, matchedPencilIds = [], matchedCodeIds = [] \<rparr>
                 allPaths;
          result = res st
      in result\<lparr> summary := calculateSummary result options \<rparr>)"

section \<open>Design-tree normalizer (normalizers/pencil.ts)\<close>

text \<open>
  A \<open>PencilNode\<close>: identifier, type, name, text content, the visual attributes as
  they come in the design data (\<open>fontSize\<close>, \<open>fill\<close>, \<open>stroke\<close>, ...) and the
  children. Style extraction reads only the visual attributes and decides neither the
  path nor the children of an element; the normalizer takes it as the argument
  \<open>extractStyles\<close>.

  \<open>generateId\<close> appends a random suffix to its prefix. The suffix drawn for a node is
  \<open>rnd pos\<close>, where \<open>pos\<close> is the position of the node below the node the
  normalizer was called on; every run of the source is the model at some \<open>rnd\<close>.
\<close>

datatype pencilNode = PencilNode
  (pn_id: "string option")
  (pn_type: string)
  (pn_name: "string option")
  (pn_content: "string option")
  (pn_attrs: styleProperties)
  (pn_children: "pencilNode list option")

definition generateId :: "string \<Rightarrow> string \<Rightarrow> string" where
  "generateId prefix suffix = prefix @ ''_'' @ suffix"

definition typeName :: "elementType \<Rightarrow> string" where
  "typeName t = (case t of TText \<Rightarrow> ''text'' | TContainer \<Rightarrow> ''container''
     | TButton \<Rightarrow> ''button'' | TImage \<Rightarrow> ''image'' | TIcon \<Rightarrow> ''icon''
     | TInput \<Rightarrow> ''input'')"

definition typeMap :: "elementType jsobject" where
  "typeMap =
     [(''text'', TText), (''frame'', TContainer), (''rectangle'', TContainer),
      (''ellipse'', TContainer), (''group'', TContainer), (''line'', TContainer),
      (''path'', TContainer), (''icon_font'', TIcon), (''image'', TImage),
      (''connection'', TContainer), (''note'', TContainer), (''ref'', TContainer)]"

definition mapPencilTypeToStandard :: "string \<Rightarrow> elementType" where
  "mapPencilTypeToStandard pencilType =
     (case map_of typeMap pencilType of None \<Rightarrow> TContainer | Some t \<Rightarrow> t)"

definition isAlphaNum :: "char \<Rightarrow> bool" where
  "isAlphaNum c = (isLower c \<or> isUpper c \<or> isDigit c)"

text \<open>
  \<open>normalizePencilName\<close>: \<open>replace(/\d+$/, '')\<close>, then
  \<open>replace(/[^a-zA-Z0-9]/g, '')\<close>, then \<open>replace(/^[A-Z]/, toLowerCase)\<close>.
\<close>

definition lowerFirst :: "string \<Rightarrow> string" where
  "lowerFirst s = (case s of [] \<Rightarrow> [] | c # cs \<Rightarrow> toLowerChar c # cs)"

definition normalizePencilName :: "string \<Rightarrow> string" where
  "normalizePencilName name =
     (let withoutSuffix = rev (dropWhile isDigit (rev name))
      in lowerFirst (filter isAlphaNum withoutSuffix))"

text \<open>\<open>node.name\<close> as a condition: present and not empty.\<close>

definition nameGiven :: "string option \<Rightarrow> bool" where
  "nameGiven nm = (case nm of None \<Rightarrow> False | Some n \<Rightarrow> n \<noteq> [])"

definition orElse :: "string option \<Rightarrow> string \<Rightarrow> string" where
  "orElse v d = (case v of None \<Rightarrow> d | Some n \<Rightarrow> if n = [] then d else n)"

fun normalizePencilNode ::
    "(pencilNode \<Rightarrow> styleProperties) \<Rightarrow> (nat list \<Rightarrow> string) \<Rightarrow> nat list
       \<Rightarrow> pencilNode \<Rightarrow> string \<Rightarrow> nat \<Rightarrow> standardElement"
  and normalizePencilNodes ::
    "(pencilNode \<Rightarrow> styleProperties) \<Rightarrow> (nat list \<Rightarrow> string) \<Rightarrow> nat list
       \<Rightarrow> pencilNode list \<Rightarrow> string \<Rightarrow> nat \<Rightarrow> standardElement list"
  where
  "normalizePencilNode extractStyles rnd pos (PencilNode nid ty nm ct attrs ch) parentPath index =
     (let nodeName = orElse nm ty;
          normalizedName = (if ty = ''text'' \<and> nameGiven nm
                            then normalizePencilName (orElse nm ty) else nodeName);
          currentPath = buildPath parentPath normalizedName index;
          elementType = mapPencilTypeToStandard ty;
          isIndependent = (if nameGiven nm then isIndependentComponent (orElse nm ty)
                           else False)
      in StandardElement
           (orElse nid (generateId (typeName elementType) (rnd pos)))
           elementType currentPath ct
           (extractStyles (PencilNode nid ty nm ct attrs ch))
           (if isIndependent then None
            else case ch of
                   None \<Rightarrow> None
                 | Some cs \<Rightarrow>
                     if cs = [] then None
                     else Some (normalizePencilNodes extractStyles rnd pos cs currentPath 0))
           (Some isIndependent))"
| "normalizePencilNodes extractStyles rnd pos [] parentPath idx = []"
| "normalizePencilNodes extractStyles rnd pos (child # cs) parentPath idx =
     normalizePencilNode extractStyles rnd (pos @ [idx]) child parentPath idx
       # normalizePencilNodes extractStyles rnd pos cs parentPath (Suc idx)"

text \<open>A value used as a condition.\<close>

fun truthy :: "jsval \<Rightarrow> bool" where
  "truthy Undefined = False"
| "truthy Null = False"
| "truthy NaN = False"
| "truthy (Num r) = (r \<noteq> 0)"
| "truthy (Str s) = (s \<noteq> [])"

record pencilFrame =
  f_id :: string
  f_type :: string
  f_name :: string
  f_fill :: jsval
  f_cornerRadius :: jsval
  f_gap :: jsval
  f_padding :: jsval
  f_children :: "pencilNode list option"

definition setIf :: "bool \<Rightarrow> string \<Rightarrow> jsval \<Rightarrow> styleProperties \<Rightarrow> styleProperties" where
  "setIf cond k v styles = (if cond then objSet k v styles else styles)"

definition normalizePencilFrame ::
  "(pencilNode \<Rightarrow> styleProperties) \<Rightarrow> (nat list \<Rightarrow> string) \<Rightarrow> pencilFrame
     \<Rightarrow> standardElement list" where
  "normalizePencilFrame extractStyles rnd frame =
     (let rootStyles =
            setIf (f_padding frame \<noteq> Undefined) ''padding'' (f_padding frame)
              (setIf (f_gap frame \<noteq> Undefined) ''gap'' (f_gap frame)
                 (setIf (f_cornerRadius frame \<noteq> Undefined) ''borderRadius''
                    (f_cornerRadius frame)
                    (setIf (truthy (f_fill frame)) ''backgroundColor'' (f_fill frame) [])))
      in [StandardElement (f_id frame) TContainer (f_name frame) None rootStyles
            (case f_children frame of
               None \<Rightarrow> None
             | Some cs \<Rightarrow> Some (normalizePencilNodes extractStyles rnd [] cs (f_name frame) 0))
            None])"

section \<open>Implementation-tree normalizer (normalizers/code.ts)\<close>

text \<open>
  The syntax tree of the markup, as far as the normalizer inspects it. An expression the
  normalizer has no case for is \<open>OtherExpression\<close>; an object member that is not a
  plain property is \<open>OtherMember\<close>.
\<close>

datatype expr =
    Identifier string
  | StringLiteral string
  | NumericLiteral real
  | MemberExpression expr expr
  | TemplateLiteral "string list" "expr list"
  | LogicalExpression expr expr
  | ConditionalExpression expr expr expr
  | BinaryExpression expr expr
  | ObjectExpression "objectMember list"
  | OtherExpression
and objectMember =
    ObjectProperty expr expr
  | OtherMember

datatype jsxName =
    JSXIdentifier string
  | JSXMemberExpression jsxName string
  | JSXNamespacedName string string

datatype jsxAttrValue = ValString string | ValExpression expr | ValOther

text \<open>
  An attribute carries its name when the name is a plain identifier; a spread attribute
  is \<open>JSXSpreadAttribute\<close>.
\<close>

datatype jsxAttribute =
    JSXAttribute "string option" jsxAttrValue
  | JSXSpreadAttribute

datatype jsxNode =
    JSXElement jsxName "jsxAttribute list" "jsxNode list"
  | JSXText string
  | JSXExpressionContainer expr
  | JSXOtherChild

type_synonym styleMap = "styleProperties jsobject"

definition TAG_TYPE_MAP :: "elementType jsobject" where
  "TAG_TYPE_MAP =
     [(''span'', TText), (''p'', TText), (''h1'', TText), (''h2'', TText), (''h3'', TText),
      (''h4'', TText), (''h5'', TText), (''h6'', TText), (''a'', TText), (''strong'', TText),
      (''em'', TText), (''small'', TText), (''div'', TContainer), (''section'', TContainer),
      (''article'', TContainer), (''main'', TContainer), (''header'', TContainer),
      (''footer'', TContainer), (''nav'', TContainer), (''aside'', TContainer),
      (''button'', TButton), (''input'', TInput), (''textarea'', TInput),
      (''select'', TInput), (''img'', TImage), (''svg'', TIcon), (''i'', TIcon)]"

definition mapTagToElementType :: "string \<Rightarrow> elementType" where
  "mapTagToElementType tagName =
     (case map_of TAG_TYPE_MAP tagName of None \<Rightarrow> TContainer | Some t \<Rightarrow> t)"

fun getTagName :: "jsxName \<Rightarrow> string" where
  "getTagName (JSXIdentifier n) = n"
| "getTagName (JSXMemberExpression (JSXIdentifier n) _) = n"
| "getTagName _ = []"

text \<open>
  \<open>parseFloat\<close> on a string of digits and dots, and \<open>convertCSSValue\<close>, whose pattern
  is \<open>/^([\d.]+)(px|rem|em|%)?$/\<close>.
\<close>

definition parseFloatDigits :: "string \<Rightarrow> jsval" where
  "parseFloatDigits s =
     (let whole = takeWhile isDigit s;
          rest = dropWhile isDigit s;
          frac = (if rest \<noteq> [] \<and> hd rest = CHR ''.'' then takeWhile isDigit (tl rest) else [])
      in if whole = [] \<and> frac = [] then NaN
         else Num (real (digitsToNat whole) + real (digitsToNat frac) / 10 ^ length frac))"

definition convertCSSValue :: "string \<Rightarrow> jsval" where
  "convertCSSValue v =
     (let isNumChar = (\<lambda>c. isDigit c \<or> c = CHR ''.'');
          num = takeWhile isNumChar v;
          unit = dropWhile isNumChar v
      in if num \<noteq> [] \<and> unit \<in> {[], ''px'', ''rem'', ''em'', ''%''}
         then (if unit = [] \<or> unit = ''px'' then parseFloatDigits num else Str v)
         else Str v)"

fun collectFromChild :: "string list \<Rightarrow> jsxNode \<Rightarrow> string list" where
  "collectFromChild texts (JSXText v) = (if trim v \<noteq> [] then texts @ [trim v] else texts)"
| "collectFromChild texts (JSXExpressionContainer (StringLiteral v)) = texts @ [v]"
| "collectFromChild texts (JSXExpressionContainer (TemplateLiteral quasis es)) =
     texts @ [trim (concat quasis)]"
| "collectFromChild texts _ = texts"

definition joinWith :: "string \<Rightarrow> string list \<Rightarrow> string" where
  "joinWith sep xs = (case xs of [] \<Rightarrow> [] | y # ys \<Rightarrow> y @ concat (map (\<lambda>z. sep @ z) ys))"

definition extractTextContent :: "jsxNode list \<Rightarrow> string option" where
  "extractTextContent children =
     (let texts = foldl collectFromChild [] children
      in if texts \<noteq> [] then Some (joinWith '' '' texts) else None)"

fun extractClassNamesFromExpression :: "string list \<Rightarrow> expr \<Rightarrow> string list"
  and extractClassNamesFromExpressions :: "string list \<Rightarrow> expr list \<Rightarrow> string list" where
  "extractClassNamesFromExpression classNames (MemberExpression ob (Identifier n)) =
     classNames @ [n]"
| "extractClassNamesFromExpression classNames (MemberExpression ob pr) = classNames"
| "extractClassNamesFromExpression classNames (TemplateLiteral quasis es) =
     extractClassNamesFromExpressions classNames es"
| "extractClassNamesFromExpression classNames (LogicalExpression l r) =
     extractClassNamesFromExpression (extractClassNamesFromExpression classNames l) r"
| "extractClassNamesFromExpression classNames (ConditionalExpression c a b) =
     extractClassNamesFromExpression (extractClassNamesFromExpression classNames a) b"
| "extractClassNamesFromExpression classNames (BinaryExpression l r) =
     extractClassNamesFromExpression (extractClassNamesFromExpression classNames l) r"
| "extractClassNamesFromExpression classNames _ = classNames"
| "extractClassNamesFromExpressions classNames [] = classNames"
| "extractClassNamesFromExpressions classNames (e # es) =
     extractClassNamesFromExpressions (extractClassNamesFromExpression classNames e) es"

fun classNamesStep :: "string list \<Rightarrow> jsxAttribute \<Rightarrow> string list" where
  "classNamesStep classNames (JSXAttribute (Some n) (ValString v)) =
     (if n = ''className''
      then classNames @ filter (\<lambda>c. c \<noteq> []) (split v '' '') else classNames)"
| "classNamesStep classNames (JSXAttribute (Some n) (ValExpression e)) =
     (if n = ''className'' then extractClassNamesFromExpression classNames e else classNames)"
| "classNamesStep classNames _ = classNames"

definition extractClassNames :: "jsxAttribute list \<Rightarrow> string list" where
  "extractClassNames attributes = foldl classNamesStep [] attributes"

text \<open>\<open>Object.assign(styles, classStyles)\<close>.\<close>

definition objectAssign :: "'v jsobject \<Rightarrow> 'v jsobject \<Rightarrow> 'v jsobject" where
  "objectAssign target source =
     foldl (\<lambda>ob k. case map_of source k of None \<Rightarrow> ob | Some v \<Rightarrow> objSet k v ob)
       target (objectKeys source)"

fun inlineStyleStep :: "styleProperties \<Rightarrow> objectMember \<Rightarrow> styleProperties" where
  "inlineStyleStep styles (ObjectProperty (Identifier k) (StringLiteral v)) =
     objSet k (convertCSSValue v) styles"
| "inlineStyleStep styles (ObjectProperty (Identifier k) (NumericLiteral r)) =
     objSet k (Num r) styles"
| "inlineStyleStep styles _ = styles"

fun classStyleStep :: "styleMap \<Rightarrow> styleProperties \<Rightarrow> expr \<Rightarrow> styleProperties" where
  "classStyleStep cssStyles styles (MemberExpression ob (Identifier className)) =
     (case map_of cssStyles className of
        None \<Rightarrow> styles
      | Some classStyles \<Rightarrow> objectAssign styles classStyles)"
| "classStyleStep cssStyles styles _ = styles"

fun styleAttrStep :: "styleMap \<Rightarrow> styleProperties \<Rightarrow> jsxAttribute \<Rightarrow> styleProperties" where
  "styleAttrStep cssStyles styles (JSXAttribute (Some n) (ValExpression e)) =
     (let styles1 = (if n = ''className'' then classStyleStep cssStyles styles e else styles)
      in if n = ''style''
         then (case e of ObjectExpression props \<Rightarrow> foldl inlineStyleStep styles1 props
               | _ \<Rightarrow> styles1)
         else styles1)"
| "styleAttrStep cssStyles styles _ = styles"

definition extractStyleFromProps :: "jsxAttribute list \<Rightarrow> styleMap \<Rightarrow> styleProperties" where
  "extractStyleFromProps attributes cssStyles = foldl (styleAttrStep cssStyles) [] attributes"

definition upperFirst :: "string \<Rightarrow> string" where
  "upperFirst s = (case s of [] \<Rightarrow> [] | c # cs \<Rightarrow> toUpperChar c # cs)"

definition buildElementPath :: "string \<Rightarrow> string list \<Rightarrow> string \<Rightarrow> nat \<Rightarrow> string" where
  "buildElementPath tagName classNames parentPath index =
     (let className = (case classNames of [] \<Rightarrow> [] | c # _ \<Rightarrow> c);
          name = lookupOr CODE_CLASS_TO_PENCIL_NAME (if className = [] then tagName else className)
      in if parentPath = [] then upperFirst name
         else parentPath @ '' > '' @ name @ ''['' @ natToString index @ '']'')"

text \<open>
  \<open>extractJSXElement\<close> and its loop over the children; \<open>sofar\<close> holds the child
  elements extracted so far and \<open>k\<close> counts the children visited.
\<close>

fun extractJSXElement ::
    "styleMap \<Rightarrow> (nat list \<Rightarrow> string) \<Rightarrow> nat list \<Rightarrow> jsxNode \<Rightarrow> string \<Rightarrow> nat
       \<Rightarrow> standardElement option"
  and extractChildElements ::
    "styleMap \<Rightarrow> (nat list \<Rightarrow> string) \<Rightarrow> nat list \<Rightarrow> string \<Rightarrow> nat
       \<Rightarrow> standardElement list \<Rightarrow> jsxNode list \<Rightarrow> standardElement list"
  where
  "extractJSXElement cssStyles rnd pos (JSXElement name attributes children) parentPath
       childIndex =
     (let tagName = getTagName name
      in if tagName = [] then None
         else let content = extractTextContent children;
                  styles = extractStyleFromProps attributes cssStyles;
                  classNames = extractClassNames attributes;
                  currentPath = buildElementPath tagName classNames parentPath childIndex;
                  isIndependent = isIndependentComponent tagName;
                  childElements =
                    (if \<not> isIndependent
                     then extractChildElements cssStyles rnd pos currentPath 0 [] children
                     else [])
              in Some (StandardElement (generateId tagName (rnd pos))
                         (mapTagToElementType tagName) currentPath content styles
                         (if childElements \<noteq> [] then Some childElements else None)
                         (Some isIndependent)))"
| "extractJSXElement cssStyles rnd pos _ parentPath childIndex = None"
| "extractChildElements cssStyles rnd pos currentPath k sofar [] = sofar"
| "extractChildElements cssStyles rnd pos currentPath k sofar (child # rest) =
     (case child of
        JSXElement name attributes children \<Rightarrow>
          (case extractJSXElement cssStyles rnd (pos @ [k]) child currentPath (length sofar) of
             Some childElement \<Rightarrow>
               extractChildElements cssStyles rnd pos currentPath (Suc k)
                 (sofar @ [childElement]) rest
           | None \<Rightarrow> extractChildElements cssStyles rnd pos currentPath (Suc k) sofar rest)
      | _ \<Rightarrow> extractChildElements cssStyles rnd pos currentPath (Suc k) sofar rest)"

text \<open>
  One step up the syntax tree from a visited element: the type of the ancestor and, for
  a call whose callee is an identifier, the name called. \<open>isInsideHookCallback\<close>
  looks at up to five ancestors, nearest first.
\<close>

record ancestor =
  a_type :: string
  a_callee :: "string option"

definition hookCall :: "ancestor \<Rightarrow> bool option" where
  "hookCall a =
     (if a_type a = ''CallExpression''
      then (case a_callee a of None \<Rightarrow> None | Some n \<Rightarrow> Some (startsWith n ''use''))
      else None)"

definition isFunctionType :: "string \<Rightarrow> bool" where
  "isFunctionType t =
     (t = ''FunctionDeclaration'' \<or> t = ''FunctionExpression''
      \<or> t = ''ArrowFunctionExpression'')"

fun insideHook :: "nat \<Rightarrow> ancestor list \<Rightarrow> bool" where
  "insideHook 0 ancestors = False"
| "insideHook (Suc n) [] = False"
| "insideHook (Suc n) (parent # rest) =
     (case hookCall parent of
        Some r \<Rightarrow> r
      | None \<Rightarrow>
          if isFunctionType (a_type parent)
          then (case rest of
                  [] \<Rightarrow> False
                | grandParent # _ \<Rightarrow>
                    (case hookCall grandParent of Some r \<Rightarrow> r | None \<Rightarrow> False))
          else insideHook n rest)"

definition isInsideHookCallback :: "ancestor list \<Rightarrow> bool" where
  "isInsideHookCallback ancestors = insideHook 5 ancestors"

text \<open>
  The parser and the tree walker are external libraries. \<open>parse\<close> gives the syntax tree
  or the error it throws; \<open>visits\<close> lists the markup elements of a tree in the order the
  walker reaches them, each with its ancestors. \<open>parseCSSModules\<close> is the stylesheet
  reducer. A run gives the lines written to the error log and either the exception that
  leaves the function (\<open>Inl\<close>) or the elements returned (\<open>Inr\<close>).
\<close>

record jsxVisit =
  v_node :: jsxNode
  v_ancestors :: "ancestor list"

definition visitStep ::
  "styleMap \<Rightarrow> (nat list \<Rightarrow> string) \<Rightarrow> standardElement list \<Rightarrow> jsxVisit
     \<Rightarrow> standardElement list" where
  "visitStep cssStyles rnd elements v =
     (if (case v_ancestors v of [] \<Rightarrow> False | parent # _ \<Rightarrow> a_type parent = ''ReturnStatement'')
         \<and> \<not> isInsideHookCallback (v_ancestors v)
      then (case extractJSXElement cssStyles rnd [length elements] (v_node v) []
                   (length elements) of
              Some element \<Rightarrow> elements @ [element]
            | None \<Rightarrow> elements)
      else elements)"

definition normalizeCodeFile ::
  "(string \<Rightarrow> styleMap) \<Rightarrow> (string \<Rightarrow> string + 'ast) \<Rightarrow> ('ast \<Rightarrow> jsxVisit list)
     \<Rightarrow> (nat list \<Rightarrow> string) \<Rightarrow> string \<Rightarrow> string
     \<Rightarrow> string list \<times> (string + standardElement list)" where
  "normalizeCodeFile parseCSSModules parse visits rnd tsxCode cssCode =
     (let cssStyles = parseCSSModules cssCode;
          tried = (case parse tsxCode of
                     Inl error \<Rightarrow> Inl error
                   | Inr ast \<Rightarrow> Inr (foldl (visitStep cssStyles rnd) [] (visits ast)))
      in case tried of
           Inl error \<Rightarrow> ([error], Inr [])
         | Inr elements \<Rightarrow> ([], Inr elements))"

section \<open>Properties stated by the specification\<close>

text \<open>
  The opaque-component invariant on a canonical tree: an element marked as an
  independent component has no children, and so on below it.
\<close>

fun opaqueInvariant :: "standardElement \<Rightarrow> bool" where
  "opaqueInvariant (StandardElement i t p c s ch m) =
     ((m = Some True \<longrightarrow> ch = None)
      \<and> (case ch of None \<Rightarrow> True | Some els \<Rightarrow> list_all opaqueInvariant els))"

text \<open>
  The summary as the specification words it: counts of the entries with error severity,
  the rate over the three list lengths, and the status rule.
\<close>

definition specSummary :: "comparisonResult \<Rightarrow> comparisonSummary" where
  "specSummary r =
     \<lparr> totalElements = length (matches r) + length (missingInCode r) + length (extraInCode r),
       matchedElements = length (filter (\<lambda>m. 0.5 \<le> m_confidence m) (matches r)),
       missingElements = length (filter (\<lambda>d. d_severity d = SevError) (missingInCode r)),
       extraElements = length (filter (\<lambda>d. d_severity d = SevError) (extraInCode r)),
       styleDiffCount = length (filter (\<lambda>d. sd_severity d = SevError) (styleDiffs r)),
       matchRate =
         (if length (matches r) + length (missingInCode r) + length (extraInCode r) = 0 then 100
          else real (length (filter (\<lambda>m. 0.5 \<le> m_confidence m) (matches r)))
               / real (length (matches r) + length (missingInCode r) + length (extraInCode r))
               * 100),
       status =
         (if list_ex (\<lambda>d. d_severity d = SevError) (missingInCode r)
             \<or> list_ex (\<lambda>d. sd_severity d = SevError) (styleDiffs r)
             \<or> list_ex (\<lambda>d. d_severity d = SevError) (extraInCode r)
          then Fail
          else if extraInCode r \<noteq> [] then Warning
          else Pass) \<rparr>"

text \<open>
  Confidence scoring as the specification words it. A property is compared when it is
  not ignored and present on at least one side; the score is the share of compared
  properties that match, 1 when none is compared.
\<close>

definition comparable ::
  "standardElement \<Rightarrow> standardElement \<Rightarrow> comparisonOptions \<Rightarrow> string \<Rightarrow> bool" where
  "comparable pencil code options prop =
     (prop \<notin> ignoreProps options
      \<and> \<not> (elementValue pencil prop = Undefined \<and> elementValue code prop = Undefined))"

definition matchRatio :: "(string \<Rightarrow> bool) \<Rightarrow> string list \<Rightarrow> real" where
  "matchRatio matching compared =
     (if compared = [] then 1
      else real (length (filter matching compared)) / real (length compared))"

text \<open>
  The tolerance and colour rules of the value primitives, applied to one property:
  \<open>colorsEqual\<close> for two strings of a colour property, \<open>valuesEqual\<close> with the
  property as hint otherwise.
\<close>

definition specPropertyMatch ::
  "comparisonOptions \<Rightarrow> string \<Rightarrow> jsval \<Rightarrow> jsval \<Rightarrow> bool" where
  "specPropertyMatch options prop a b =
     (if prop = ''color'' \<or> prop = ''backgroundColor''
      then (case (a, b) of
              (Str s, Str t) \<Rightarrow> colorsEqual s t (orZero (colorTolerance options))
            | _ \<Rightarrow> valuesEqual a b (orZero (tolerance options)) (Some prop))
      else valuesEqual a b (orZero (tolerance options)) (Some prop))"

definition specConfidence ::
  "standardElement \<Rightarrow> standardElement \<Rightarrow> comparisonOptions \<Rightarrow> real" where
  "specConfidence pencil code options =
     matchRatio
       (\<lambda>prop. specPropertyMatch options prop (elementValue pencil prop) (elementValue code prop))
       (filter (comparable pencil code options) propertiesToCompare)"

section \<open>Scenario data\<close>

definition defaultOptions :: comparisonOptions where
  "defaultOptions =
     \<lparr> tolerance = None, colorTolerance = None, ignoreProperties = None, severity = None \<rparr>"

text \<open>A design header with a settings button, and its markup with the dropdown component.\<close>

definition pencilButton :: standardElement where
  "pencilButton =
     StandardElement ''p2'' TContainer ''header > settingsButton[0]'' None [] None (Some True)"

definition pencilHeader :: standardElement where
  "pencilHeader = StandardElement ''p1'' TContainer ''header'' None [] (Some [pencilButton]) None"

definition codeDropdown :: standardElement where
  "codeDropdown =
     StandardElement ''c2'' TContainer ''header > SettingsDropdown[0]'' None [] None (Some False)"

definition codeHeader :: standardElement where
  "codeHeader = StandardElement ''c1'' TContainer ''header'' None [] (Some [codeDropdown]) None"

text \<open>Two titles that differ in the notation of the font weight.\<close>

definition pencilWeight :: standardElement where
  "pencilWeight =
     StandardElement ''p1'' TText ''title'' None [(''fontWeight'', Str ''normal'')] None None"

definition codeWeight :: standardElement where
  "codeWeight =
     StandardElement ''c1'' TText ''title'' None [(''fontWeight'', Num 400)] None None"

definition noStyles :: "pencilNode \<Rightarrow> styleProperties" where
  "noStyles node = []"

definition fixedSuffix :: "nat list \<Rightarrow> string" where
  "fixedSuffix pos = ''k3x9q2a''"

definition designDivider :: pencilNode where
  "designDivider = PencilNode None ''rectangle'' (Some ''divider1'') None [] None"

definition designDivider2 :: pencilNode where
  "designDivider2 = PencilNode None ''rectangle'' (Some ''divider2'') None [] None"

definition designButton :: pencilNode where
  "designButton =
     PencilNode (Some ''n7'') ''frame'' (Some ''settingsButton'') None []
       (Some [PencilNode None ''text'' (Some ''label'') (Some ''Settings'') [] None])"

definition templateClassAttr :: jsxAttribute where
  "templateClassAttr =
     JSXAttribute (Some ''className'')
       (ValExpression (TemplateLiteral [[], '' '', []]
          [MemberExpression (Identifier ''styles'') (Identifier ''card''),
           MemberExpression (Identifier ''styles'') (Identifier ''active'')]))"

definition memberClassAttr :: jsxAttribute where
  "memberClassAttr =
     JSXAttribute (Some ''className'')
       (ValExpression (MemberExpression (Identifier ''styles'') (Identifier ''card'')))"

definition cardStyles :: styleMap where
  "cardStyles =
     [(''card'', [(''padding'', Num 16)]), (''active'', [(''color'', Str ''#ff0000'')])]"

definition failingParse :: "string \<Rightarrow> string + unit" where
  "failingParse code = Inl ''SyntaxError: Unexpected token''"

definition noCss :: "string \<Rightarrow> styleMap" where
  "noCss css = []"

definition noVisits :: "unit \<Rightarrow> jsxVisit list" where
  "noVisits ast = []"

section \<open>Lemmas on the primitives\<close>

lemma hexToRgb_black: "hexToRgb ''#000000'' = Some (0, 0, 0)"
  by (simp add: hexToRgb_def isHexDigit_def hexVal_def)

lemma hexToRgb_0A: "hexToRgb ''#0A0A0A'' = Some (10, 10, 10)"
  by (simp add: hexToRgb_def isHexDigit_def hexVal_def)

lemma hexToRgb_upper: "hexToRgb ''#ABCDEF'' = Some (171, 205, 239)"
  by (simp add: hexToRgb_def isHexDigit_def hexVal_def)

lemma hexToRgb_lower: "hexToRgb ''#abcdef'' = Some (171, 205, 239)"
  by (simp add: hexToRgb_def isHexDigit_def hexVal_def)

lemma colorDistance_black_0A: "colorDistance ''#000000'' ''#0A0A0A'' = sqrt 300"
  by (simp add: colorDistance_def hexToRgb_black hexToRgb_0A rgbDistance_def Math_sqrt_def)

lemma colorDistance_case: "colorDistance ''#ABCDEF'' ''#abcdef'' = 0"
  by (simp add: colorDistance_def hexToRgb_upper hexToRgb_lower rgbDistance_def Math_sqrt_def)

lemma sqrt_300_bounds: "(10::real) < sqrt 300" "sqrt 300 \<le> (20::real)"
proof -
  show "(10::real) < sqrt 300" by (rule real_less_rsqrt) simp
  show "sqrt 300 \<le> (20::real)" by (rule real_le_lsqrt) simp_all
qed

lemma colorsEqual_iff:
  "colorsEqual c1 c2 t \<longleftrightarrow> c1 = c2 \<or> (0 < t \<and> colorDistance c1 c2 \<le> t)"
  by (simp add: colorsEqual_def)

lemma valuesEqual_mono:
  "valuesEqual a b t1 p \<Longrightarrow> t1 \<le> t2 \<Longrightarrow> valuesEqual a b t2 p"
  by (auto simp: valuesEqual_def split: if_splits jsval.splits)

section \<open>Lemmas on the comparator\<close>

lemma filter_empty_list_ex: "filter P xs = [] \<longleftrightarrow> \<not> list_ex P xs"
  by (simp add: filter_empty_conv list_ex_iff)

lemma calculateSummary_spec: "calculateSummary r options = specSummary r"
  by (simp add: calculateSummary_def specSummary_def Let_def filter_empty_list_ex)

lemma specSummary_summary_update: "specSummary (r\<lparr>summary := s\<rparr>) = specSummary r"
  by (simp add: specSummary_def)

section \<open>Lemmas on the normalizers\<close>

lemma opaqueInvariant_children:
  "opaqueInvariant el \<Longrightarrow> el_isIndependentComponent el = Some True \<Longrightarrow> el_children el = None"
  by (cases el) simp

lemma normalizePencil_opaque:
  "opaqueInvariant (normalizePencilNode ex rnd pos node parentPath index)"
  "list_all opaqueInvariant (normalizePencilNodes ex rnd pos nodes parentPath index)"
  by (induction ex rnd pos node parentPath index and ex rnd pos nodes parentPath index
        rule: normalizePencilNode_normalizePencilNodes.induct)
     (auto simp: Let_def split: option.splits)

lemma normalizePencilFrame_opaque:
  "list_all opaqueInvariant (normalizePencilFrame ex rnd frame)"
  by (auto simp: normalizePencilFrame_def Let_def normalizePencil_opaque split: option.splits)

lemma extract_opaque:
  "extractJSXElement css rnd pos node parentPath childIndex = Some el \<Longrightarrow> opaqueInvariant el"
  "list_all opaqueInvariant sofar \<Longrightarrow>
     list_all opaqueInvariant (extractChildElements css rnd pos currentPath k sofar nodes)"
  by (induction css rnd pos node parentPath childIndex and css rnd pos currentPath k sofar nodes
        arbitrary: el rule: extractJSXElement_extractChildElements.induct)
     (auto simp: Let_def split: if_splits jsxNode.splits option.splits)

lemma visitStep_opaque:
  "list_all opaqueInvariant acc \<Longrightarrow> list_all opaqueInvariant (visitStep css rnd acc v)"
  by (auto simp: visitStep_def extract_opaque(1) split: option.splits)

lemma visits_opaque:
  "list_all opaqueInvariant acc \<Longrightarrow> list_all opaqueInvariant (foldl (visitStep css rnd) acc vs)"
  by (induction vs arbitrary: acc) (auto simp: visitStep_opaque)

lemma normalizeCodeFile_opaque:
  "list_all opaqueInvariant
     (case snd (normalizeCodeFile pcss parse visits rnd tsxCode cssCode) of
        Inl e \<Rightarrow> [] | Inr els \<Rightarrow> els)"
  using visits_opaque[of "[]"]
  by (auto simp: normalizeCodeFile_def Let_def split: sum.splits)

section \<open>The claims\<close>

text \<open>
  C1. For every comparison run the summary is computed as the specification says:
  the matched count is the number of pairs with confidence at least 0.5; the missing,
  extra and difference counts are the numbers of entries with error severity; the match
  rate is matched / total * 100, and 100 when the total is zero; the status is fail when
  a missing element, a property difference or an extra element has error severity,
  warning when otherwise the extra list is not empty, and pass otherwise.
\<close>

theorem summary_computation:
  "calculateSummary r options = specSummary r
   \<and> summary (compareStructures pencilElements codeElements options)
       = specSummary (compareStructures pencilElements codeElements options)"
  by (simp add: calculateSummary_spec compareStructures_def Let_def specSummary_summary_update)

theorem summary_computation_witness:
  "summary (compareStructures [pencilHeader] [codeHeader] defaultOptions) =
     \<lparr> totalElements = 3, matchedElements = 2, missingElements = 0, extraElements = 0,
       styleDiffCount = 0, matchRate = 200 / 3, status = Warning \<rparr>"
proof -
  have "summary (compareStructures [pencilHeader] [codeHeader] defaultOptions)
          = specSummary (compareStructures [pencilHeader] [codeHeader] defaultOptions)"
    using summary_computation[of initialResult defaultOptions "[pencilHeader]" "[codeHeader]"]
    by simp
  also have "\<dots> = \<lparr> totalElements = 3, matchedElements = 2, missingElements = 0,
                    extraElements = 0, styleDiffCount = 0, matchRate = 200 / 3,
                    status = Warning \<rparr>"
    by code_simp
  finally show ?thesis .
qed

text \<open>
  C2. The claim is that the element-level confidence compares each property by the
  tolerance and colour rules of the value primitives, the \<open>fontWeight\<close> coercion of
  \<open>normal\<close> to 400 and the case-insensitive comparison of strings included. The
  element comparator has neither: for a design \<open>fontWeight\<close> of \<open>normal\<close> against
  400 in the markup the primitives give a match and a confidence of 1, the element
  comparator gives a confidence of 0, and the style comparison of the same pair, which
  goes through \<open>valuesEqual\<close>, reports no difference.
\<close>

theorem fontWeight_not_coerced_in_confidence:
  "valuesEqual (Str ''normal'') (Num 400) 0 (Some ''fontWeight'')
   \<and> \<not> compareProperty ''fontWeight'' (Str ''normal'') (Num 400) defaultOptions
   \<and> valuesEqual (Str ''1REM'') (Str ''1rem'') 0 (Some ''padding'')
   \<and> \<not> compareProperty ''padding'' (Str ''1REM'') (Str ''1rem'') defaultOptions
   \<and> specConfidence pencilWeight codeWeight defaultOptions = 1
   \<and> m_confidence (compareElements pencilWeight codeWeight defaultOptions) = 0
   \<and> compareStyles pencilWeight codeWeight defaultOptions ''title'' = []"
  by code_simp

text \<open>
  C3. The claim is that no implementation element of a matched pair is also listed as
  extra. In the run below the design button is aligned by alias with the dropdown of
  the markup; the dropdown is the implementation element of the second matched pair and
  is listed as extra as well.
\<close>

theorem alias_matched_element_also_extra:
  "map m_pencil (matches (compareStructures [pencilHeader] [codeHeader] defaultOptions))
     = [pencilHeader, pencilButton]
   \<and> map m_code (matches (compareStructures [pencilHeader] [codeHeader] defaultOptions))
     = [codeHeader, codeDropdown]
   \<and> map d_element (extraInCode (compareStructures [pencilHeader] [codeHeader] defaultOptions))
     = [codeDropdown]"
  by code_simp

text \<open>
  C4. Every element produced by the design-tree normalizer (from a node or from a
  frame) and by the implementation-tree normalizer (from an element or from a file)
  satisfies the opaque-component invariant: marked as an independent component, it has
  no children, whatever the source had below it.
\<close>

theorem opaque_component_invariant:
  "opaqueInvariant (normalizePencilNode ex rnd pos node parentPath index)
   \<and> list_all opaqueInvariant (normalizePencilFrame ex rnd frame)
   \<and> (case extractJSXElement css rnd pos jsx parentPath index of
         None \<Rightarrow> True | Some el \<Rightarrow> opaqueInvariant el)
   \<and> list_all opaqueInvariant
        (case snd (normalizeCodeFile pcss parse visits rnd tsxCode cssCode) of
           Inl e \<Rightarrow> [] | Inr els \<Rightarrow> els)"
  by (auto simp: normalizePencil_opaque normalizePencilFrame_opaque extract_opaque(1)
        normalizeCodeFile_opaque split: option.splits)

theorem opaque_component_invariant_witness:
  "pn_children designButton \<noteq> None
   \<and> el_isIndependentComponent
        (normalizePencilNode noStyles fixedSuffix [] designButton ''header'' 1) = Some True
   \<and> el_children (normalizePencilNode noStyles fixedSuffix [] designButton ''header'' 1) = None"
proof -
  have src: "pn_children designButton \<noteq> None"
    by (simp add: designButton_def)
  have flag: "el_isIndependentComponent
                (normalizePencilNode noStyles fixedSuffix [] designButton ''header'' 1) = Some True"
    by code_simp
  have inv: "opaqueInvariant (normalizePencilNode noStyles fixedSuffix [] designButton ''header'' 1)"
    using opaque_component_invariant[of noStyles fixedSuffix "[]" designButton "''header''" 1]
    by blast
  from opaqueInvariant_children[OF inv flag] src flag show ?thesis by blast
qed

text \<open>
  C5. The claim is that the design paths \<open>header > divider1[0]\<close> and
  \<open>header > divider2[1]\<close> are each equivalent to the implementation path
  \<open>header > divider[0]\<close> under the comparator's name mapping. Neither is: the mapping
  leaves \<open>divider1\<close> and \<open>divider2\<close> as they are, and no numeric suffix is stripped
  on the way, although \<open>stripNumericSuffix\<close> would give \<open>divider\<close>.
\<close>

theorem divider_paths_not_equivalent:
  "\<not> arePathsEquivalentByName ''header > divider1[0]'' ''header > divider[0]''
        (Some mapPencilNameToCode)
   \<and> \<not> arePathsEquivalentByName ''header > divider2[1]'' ''header > divider[0]''
        (Some mapPencilNameToCode)
   \<and> mapPencilNameToCode ''divider1'' = ''divider1''
   \<and> stripNumericSuffix ''divider1'' = ''divider''"
  by code_simp

text \<open>
  C6. The claim is that the path segment of every design node has its trailing digit
  run stripped, so that \<open>divider1\<close> and \<open>divider2\<close> both give the segment
  \<open>divider\<close>. Name normalization does strip the digits, but the normalizer applies it
  to text nodes only: two rectangles named \<open>divider1\<close> and \<open>divider2\<close> below
  \<open>header\<close> keep their digits in the path.
\<close>

theorem divider_suffix_kept_in_path:
  "el_path (normalizePencilNode noStyles fixedSuffix [] designDivider ''header'' 0)
     = ''header > divider1[0]''
   \<and> el_path (normalizePencilNode noStyles fixedSuffix [] designDivider2 ''header'' 1)
     = ''header > divider2[1]''
   \<and> normalizePencilName ''divider1'' = ''divider''
   \<and> normalizePencilName ''divider2'' = ''divider''
   \<and> buildPath ''header'' ''divider'' 0 = ''header > divider[0]''"
  by code_simp

text \<open>
  C7. The claim is that a class attribute given as a template literal has the
  stylesheet properties of every class it names merged into the style map. For the
  attribute below, which names \<open>card\<close> and \<open>active\<close>, the style map stays empty,
  while class-name extraction finds both classes and a direct reference to \<open>card\<close>
  is resolved.
\<close>

theorem template_literal_styles_not_merged:
  "extractStyleFromProps [templateClassAttr] cardStyles = []
   \<and> extractClassNames [templateClassAttr] = [''card'', ''active'']
   \<and> extractStyleFromProps [memberClassAttr] cardStyles = [(''padding'', Num 16)]"
  by code_simp

text \<open>
  C8. When the markup does not parse, the implementation-tree normalizer logs the
  error and returns the empty element sequence; no exception leaves it.
\<close>

theorem parse_failure_gives_empty:
  "parse tsxCode = Inl err \<Longrightarrow>
     normalizeCodeFile parseCSSModules parse visits rnd tsxCode cssCode = ([err], Inr [])"
  by (simp add: normalizeCodeFile_def)

theorem parse_failure_gives_empty_witness:
  "failingParse ''<div'' = Inl ''SyntaxError: Unexpected token''
   \<and> normalizeCodeFile noCss failingParse noVisits fixedSuffix ''<div'' []
       = ([''SyntaxError: Unexpected token''], Inr [])"
proof -
  have h: "failingParse ''<div'' = Inl ''SyntaxError: Unexpected token''"
    by (simp add: failingParse_def)
  from parse_failure_gives_empty[of failingParse "''<div''" "''SyntaxError: Unexpected token''"
         noCss noVisits fixedSuffix "[]", OF h] h
  show ?thesis by simp
qed

text \<open>
  C9, as amended. \<open>colorsEqual\<close> holds exactly when the two strings are identical, or
  the tolerance is positive and the colour distance is at most the tolerance. For
  \<open>#000000\<close> and \<open>#0A0A0A\<close>, at distance \<open>sqrt 300\<close>, it is false at tolerance 10
  and true at tolerance 20.
\<close>

theorem colorsEqual_characterisation:
  "(colorsEqual c1 c2 t \<longleftrightarrow> c1 = c2 \<or> (0 < t \<and> colorDistance c1 c2 \<le> t))
   \<and> colorDistance ''#000000'' ''#0A0A0A'' = sqrt 300
   \<and> \<not> colorsEqual ''#000000'' ''#0A0A0A'' 10
   \<and> colorsEqual ''#000000'' ''#0A0A0A'' 20"
  using sqrt_300_bounds
  by (simp add: colorsEqual_iff colorDistance_black_0A)

theorem colorsEqual_characterisation_witness:
  "colorsEqual ''#ABCDEF'' ''#abcdef'' 1"
  using colorsEqual_characterisation[of "''#ABCDEF''" "''#abcdef''" 1]
  by (simp add: colorDistance_case)

theorem colorsEqual_counterexample:
  "\<not> (colorsEqual ''#ABCDEF'' ''#abcdef'' 0 \<longleftrightarrow>
        ''#ABCDEF'' = ''#abcdef'' \<or> colorDistance ''#ABCDEF'' ''#abcdef'' \<le> 0)"
  by (simp add: colorsEqual_def colorDistance_case)

text \<open>
  C10. Tolerance monotonicity: for all values, numeric pairs among them, and all
  tolerances \<open>t1 < t2\<close>, values equal at tolerance \<open>t1\<close> are equal at tolerance
  \<open>t2\<close>, whatever the property hint.
\<close>

theorem tolerance_monotonicity:
  "valuesEqual a b t1 p \<Longrightarrow> t1 < t2 \<Longrightarrow> valuesEqual a b t2 p"
  using valuesEqual_mono[of a b t1 p t2] by simp

theorem tolerance_monotonicity_witness:
  "valuesEqual (Num 16) (Num 17) 1 None \<and> (1::real) < 2
   \<and> valuesEqual (Num 16) (Num 17) 2 None
   \<and> \<not> valuesEqual (Num 16) (Num 17) (1 / 2) None"
proof -
  have h1: "valuesEqual (Num 16) (Num 17) 1 None"
    by (simp add: valuesEqual_def strictEq_def)
  have h2: "(1::real) < 2" by simp
  have h3: "\<not> valuesEqual (Num 16) (Num 17) (1 / 2) None"
    by (simp add: valuesEqual_def strictEq_def)
  from tolerance_monotonicity[OF h1 h2] h1 h2 h3 show ?thesis by blast
qed

end
